theory Spec2Isabelle
  imports Complex_Main
begin

section \<open>Numbers and their renderings\<close>

text \<open>
  The calculator works on JavaScript numbers. A finite double is a rational number, so every
  price is modelled as a \<^typ>\<open>real\<close>. In the calculator below the arithmetic is exact; what
  is proved of it rests on comparisons of the inputs, on integer scores and on the format of
  strings. The candle classifier is given a second time with every operation rounded as
  doubles round, for the one property that depends on a computed percentage meeting a
  threshold. NaN and the infinities are not modelled (the form validator rejects NaN before
  the calculator is built). Integers such as the confluence score are \<^typ>\<open>int\<close>.

  A value stored in the result is either a number, a string of digits produced by
  \<open>toFixed\<close>, or the default conversion of a number to a string (as done by a template
  literal), whose characters are not modelled.
\<close>

datatype jsval =
    Num real
  | Str string
  | NumStr real

definition digit_char :: "nat \<Rightarrow> char" where
  "digit_char d = ''0123456789'' ! d"

function digits_of :: "nat \<Rightarrow> string" where
  "digits_of n =
     (if n < 10 then [digit_char n] else digits_of (n div 10) @ [digit_char (n mod 10)])"
  by pat_completeness auto
termination
  by (relation "measure (\<lambda>n. n)") auto

declare digits_of.simps [simp del]

text \<open>
  \<open>Number.prototype.toFixed(f)\<close>: the sign is split off, a magnitude of at least \<open>10^21\<close>
  falls back to the default conversion, otherwise the integer \<open>n\<close> nearest to
  \<open>x * 10^f\<close> is taken (the larger one on a tie), its digits are padded with zeros to
  \<open>f + 1\<close> characters and the point is put before the last \<open>f\<close> digits.
\<close>

definition toFixed :: "nat \<Rightarrow> real \<Rightarrow> jsval" where
  "toFixed f x =
     (if 10 ^ 21 \<le> \<bar>x\<bar> then NumStr x
      else
        let n = nat \<lfloor>\<bar>x\<bar> * 10 ^ f + 1 / 2\<rfloor>;
            m = digits_of n;
            m = (if f = 0 then m
                 else
                   let m = (if length m \<le> f
                            then replicate (f + 1 - length m) (CHR ''0'') @ m else m);
                       k = length m
                   in take (k - f) m @ ''.'' @ drop (k - f) m)
        in Str ((if x < 0 then ''-'' else []) @ m))"

text \<open>Whether a string is an optional minus sign, digits, a point and exactly \<open>f\<close> digits.\<close>

definition is_digit :: "char \<Rightarrow> bool" where
  "is_digit c = (c \<in> set ''0123456789'')"

definition fixed_point_string :: "nat \<Rightarrow> string \<Rightarrow> bool" where
  "fixed_point_string f s =
     (let u = (case s of [] \<Rightarrow> [] | c # cs \<Rightarrow> if c = CHR ''-'' then cs else s);
          a = takeWhile is_digit u;
          r = dropWhile is_digit u
      in a \<noteq> [] \<and> (case r of [] \<Rightarrow> False
                     | c # b \<Rightarrow> c = CHR ''.'' \<and> length b = f \<and> list_all is_digit b))"

text \<open>
  A value counts as rendered with \<open>f\<close> decimals when it is such a string; the fallback of
  \<open>toFixed\<close> for magnitudes of at least \<open>10^21\<close> is the only other thing \<open>toFixed\<close> returns.
  A plain number is not a rendering.
\<close>

fun rendered :: "nat \<Rightarrow> jsval \<Rightarrow> bool" where
  "rendered f (Str s) = fixed_point_string f s"
| "rendered f (NumStr x) = (10 ^ 21 \<le> \<bar>x\<bar>)"
| "rendered f (Num x) = False"

section \<open>The calculator object\<close>

record candle =
  ctype :: string
  isBullish :: bool
  isBearish :: bool
  isDoji :: bool
  cstrength :: int
  body :: real
  bodyPercent :: jsval
  upperWick :: real
  lowerWick :: real
  hasUpperWickRejection :: bool
  hasLowerWickRejection :: bool
  copen :: real
  cclose :: real
  chigh :: real
  clow :: real

text \<open>
  \<open>analyzeCandleType(open, close, high, low)\<close>. The division is the one of the reals: for
  \<open>high = low\<close> JavaScript yields NaN or Infinity, which is outside this model, so every
  statement below is about bars with \<open>high > low\<close>.
\<close>

definition analyzeCandleType :: "real \<Rightarrow> real \<Rightarrow> real \<Rightarrow> real \<Rightarrow> candle" where
  "analyzeCandleType opn cls hi lo =
     (let bdy = \<bar>cls - opn\<bar>;
          rng = hi - lo;
          bp = (bdy / rng) * 100;
          uw = hi - max opn cls;
          lw = min opn cls - lo;
          bull = (cls > opn);
          bear = (cls < opn);
          doji = (bp < 10);
          (ty, st) =
            (if doji then (''DOJI'', 0)
             else if bull then
               (if bp > 70 then (''STRONG BULLISH'', 3)
                else if bp > 50 then (''BULLISH'', 2)
                else (''WEAK BULLISH'', 1))
             else if bear then
               (if bp > 70 then (''STRONG BEARISH'', - 3)
                else if bp > 50 then (''BEARISH'', - 2)
                else (''WEAK BEARISH'', - 1))
             else (''NEUTRAL'', 0))
      in \<lparr> ctype = ty, isBullish = bull, isBearish = bear, isDoji = doji, cstrength = st,
           body = bdy, bodyPercent = toFixed 1 bp, upperWick = uw, lowerWick = lw,
           hasUpperWickRejection = (uw > bdy * 2), hasLowerWickRejection = (lw > bdy * 2),
           copen = opn, cclose = cls, chigh = hi, clow = lo \<rparr>)"

text \<open>
  The eight numbers that \<open>parseFloat\<close> yields in the constructor, and the symbol. The
  field names of the form are those of the source with the prefix \<open>in_\<close>.
\<close>

record data =
  in_dbpdOpen :: real
  in_dbpdHigh :: real
  in_dbpdLow :: real
  in_dbpdClose :: real
  in_pdOpen :: real
  in_pdHigh :: real
  in_pdLow :: real
  in_pdClose :: real
  in_symbol :: string

record calc =
  dbpdHigh :: real
  dbpdLow :: real
  dbpdOpen :: real
  dbpdClose :: real
  pdHigh :: real
  pdLow :: real
  pdOpen :: real
  pdClose :: real
  symbol :: string
  dbpdCandle :: candle
  pdCandle :: candle
  pdMidpoint :: real
  pdRange :: real
  dbpdMidpoint :: real
  dbpdRange :: real

definition BiasCalculator :: "data \<Rightarrow> calc" where
  "BiasCalculator d =
     \<lparr> dbpdHigh = in_dbpdHigh d, dbpdLow = in_dbpdLow d,
       dbpdOpen = in_dbpdOpen d, dbpdClose = in_dbpdClose d,
       pdHigh = in_pdHigh d, pdLow = in_pdLow d,
       pdOpen = in_pdOpen d, pdClose = in_pdClose d,
       symbol = (if in_symbol d = [] then ''N/A'' else in_symbol d),
       dbpdCandle = analyzeCandleType (in_dbpdOpen d) (in_dbpdClose d) (in_dbpdHigh d) (in_dbpdLow d),
       pdCandle = analyzeCandleType (in_pdOpen d) (in_pdClose d) (in_pdHigh d) (in_pdLow d),
       pdMidpoint = (in_pdHigh d + in_pdLow d) / 2,
       pdRange = in_pdHigh d - in_pdLow d,
       dbpdMidpoint = (in_dbpdHigh d + in_dbpdLow d) / 2,
       dbpdRange = in_dbpdHigh d - in_dbpdLow d \<rparr>"

section \<open>The analysis state\<close>

text \<open>
  The entries of the reasoning log. Each constructor stands for one message of the source;
  the interpolated values are its arguments.
\<close>

datatype remark =
    CandleD2 string jsval
  | CandleD1 string jsval
  | TwoBullish
  | TwoBearish
  | ReversalUpNote
  | ReversalDownNote
  | UpperWickNote
  | LowerWickNote
  | DojiNote
  | StrongBullishMomentum
  | StrongBearishMomentum
  | BrokeHigh real real
  | ClosedAboveHigh
  | SweptHighClosedInside
  | BrokeLow real real
  | ClosedBelowLow
  | SweptLowClosedInside
  | InsideBarNote
  | OutsideBarNote
  | OutsideClosedBullish
  | OutsideClosedBearish
  | UptrendNote
  | DowntrendNote
  | ClosedUpperQuarter
  | ClosedLowerQuarter
  | ClosedMiddle
  | ForecastSellTheHigh
  | ForecastBuyTheDip
  | ForecastUptrend
  | ForecastDowntrend
  | ForecastInsideBar
  | MixedSignals

text \<open>The \<open>scenario\<close> object: a key that was never set reads as false.\<close>

record scenario =
  reversalUp :: bool
  reversalDown :: bool
  upperRejection :: bool
  lowerRejection :: bool
  indecision :: bool
  breakoutHigh :: bool
  fakeBreakoutHigh :: bool
  breakoutLow :: bool
  fakeBreakoutLow :: bool
  insideBar :: bool
  outsideBar :: bool
  uptrend :: bool
  downtrend :: bool

record target =
  level :: jsval
  label :: string

text \<open>
  A trade setup. \<open>entryZone\<close> is a template literal: the list holds its pieces in order.
\<close>

record trade_setup =
  sweepLevel :: jsval
  entryZone :: "jsval list"
  invalidation :: jsval
  targets :: "target list"

record keylevels =
  kl_pdHigh :: real
  kl_pdLow :: real
  kl_pdOpen :: real
  kl_pdClose :: real
  kl_pdMid :: real
  kl_dbpdHigh :: real
  kl_dbpdLow :: real
  kl_dbpdOpen :: real
  kl_dbpdClose :: real
  kl_dbpdMid :: real

text \<open>The empty object \<open>{}\<close> of a setup or of the key levels is \<open>None\<close>.\<close>

record analysis =
  bias :: string
  direction :: string
  strength :: int
  reasoning :: "remark list"
  candleAnalysis :: "candle \<times> candle"
  scenario :: scenario
  recommendation :: "jsval list"
  bullishSetup :: "trade_setup option"
  bearishSetup :: "trade_setup option"
  keyLevels :: "keylevels option"
  confluence :: int

definition no_scenario :: scenario where
  "no_scenario =
     \<lparr> reversalUp = False, reversalDown = False, upperRejection = False,
       lowerRejection = False, indecision = False, breakoutHigh = False,
       fakeBreakoutHigh = False, breakoutLow = False, fakeBreakoutLow = False,
       insideBar = False, outsideBar = False, uptrend = False, downtrend = False \<rparr>"

definition initial_analysis :: "calc \<Rightarrow> analysis" where
  "initial_analysis this =
     \<lparr> bias = ''NEUTRAL'', direction = ''No Clear Direction'', strength = 0, reasoning = [],
       candleAnalysis = (dbpdCandle this, pdCandle this), scenario = no_scenario,
       recommendation = [], bullishSetup = None, bearishSetup = None, keyLevels = None,
       confluence = 0 \<rparr>"

text \<open>The three mutations the analyzers perform on the state.\<close>

definition push :: "remark \<Rightarrow> analysis \<Rightarrow> analysis" where
  "push n a = a\<lparr>reasoning := reasoning a @ [n]\<rparr>"

definition unshift :: "remark \<Rightarrow> analysis \<Rightarrow> analysis" where
  "unshift n a = a\<lparr>reasoning := n # reasoning a\<rparr>"

definition add_confluence :: "int \<Rightarrow> analysis \<Rightarrow> analysis" where
  "add_confluence k a = a\<lparr>confluence := confluence a + k\<rparr>"

definition set_scenario :: "(scenario \<Rightarrow> scenario) \<Rightarrow> analysis \<Rightarrow> analysis" where
  "set_scenario f a = a\<lparr>scenario := f (scenario a)\<rparr>"

section \<open>Candle patterns\<close>

text \<open>
  \<open>analyzeCandlePatterns\<close> is a sequence of independent blocks; each block is one
  definition here, and the method runs them in the order of the source.
\<close>

definition noteCandles :: "calc \<Rightarrow> analysis \<Rightarrow> analysis" where
  "noteCandles this a =
     (let a = push (CandleD2 (ctype (dbpdCandle this)) (bodyPercent (dbpdCandle this))) a;
          a = push (CandleD1 (ctype (pdCandle this)) (bodyPercent (pdCandle this))) a
      in a)"

definition checkTwoBullish :: "calc \<Rightarrow> analysis \<Rightarrow> analysis" where
  "checkTwoBullish this a =
     (if isBullish (dbpdCandle this) \<and> isBullish (pdCandle this)
      then push TwoBullish (add_confluence 2 a) else a)"

definition checkTwoBearish :: "calc \<Rightarrow> analysis \<Rightarrow> analysis" where
  "checkTwoBearish this a =
     (if isBearish (dbpdCandle this) \<and> isBearish (pdCandle this)
      then push TwoBearish (add_confluence (- 2) a) else a)"

definition checkReversalUp :: "calc \<Rightarrow> analysis \<Rightarrow> analysis" where
  "checkReversalUp this a =
     (if isBearish (dbpdCandle this) \<and> isBullish (pdCandle this)
      then set_scenario (\<lambda>s. s\<lparr>reversalUp := True\<rparr>)
             (push ReversalUpNote (add_confluence 1 a))
      else a)"

definition checkReversalDown :: "calc \<Rightarrow> analysis \<Rightarrow> analysis" where
  "checkReversalDown this a =
     (if isBullish (dbpdCandle this) \<and> isBearish (pdCandle this)
      then set_scenario (\<lambda>s. s\<lparr>reversalDown := True\<rparr>)
             (push ReversalDownNote (add_confluence (- 1) a))
      else a)"

definition checkUpperWick :: "calc \<Rightarrow> analysis \<Rightarrow> analysis" where
  "checkUpperWick this a =
     (if hasUpperWickRejection (pdCandle this)
      then set_scenario (\<lambda>s. s\<lparr>upperRejection := True\<rparr>)
             (push UpperWickNote (add_confluence (- 1) a))
      else a)"

definition checkLowerWick :: "calc \<Rightarrow> analysis \<Rightarrow> analysis" where
  "checkLowerWick this a =
     (if hasLowerWickRejection (pdCandle this)
      then set_scenario (\<lambda>s. s\<lparr>lowerRejection := True\<rparr>)
             (push LowerWickNote (add_confluence 1 a))
      else a)"

definition checkDoji :: "calc \<Rightarrow> analysis \<Rightarrow> analysis" where
  "checkDoji this a =
     (if isDoji (pdCandle this)
      then set_scenario (\<lambda>s. s\<lparr>indecision := True\<rparr>) (push DojiNote a)
      else a)"

definition checkMomentum :: "calc \<Rightarrow> analysis \<Rightarrow> analysis" where
  "checkMomentum this a =
     (if cstrength (pdCandle this) \<ge> 2 then push StrongBullishMomentum a
      else if cstrength (pdCandle this) \<le> - 2 then push StrongBearishMomentum a
      else a)"

definition analyzeCandlePatterns :: "calc \<Rightarrow> analysis \<Rightarrow> analysis" where
  "analyzeCandlePatterns this a =
     (let a = noteCandles this a;
          a = checkTwoBullish this a;
          a = checkTwoBearish this a;
          a = checkReversalUp this a;
          a = checkReversalDown this a;
          a = checkUpperWick this a;
          a = checkLowerWick this a;
          a = checkDoji this a;
          a = checkMomentum this a
      in a)"

section \<open>Price structure\<close>

definition checkBreakoutHigh :: "calc \<Rightarrow> analysis \<Rightarrow> analysis" where
  "checkBreakoutHigh this a =
     (if pdHigh this > dbpdHigh this then
        let a = set_scenario (\<lambda>s. s\<lparr>breakoutHigh := True\<rparr>) a;
            a = add_confluence 1 a;
            a = push (BrokeHigh (pdHigh this) (dbpdHigh this)) a
        in if pdClose this > dbpdHigh this
           then push ClosedAboveHigh (add_confluence 1 a)
           else set_scenario (\<lambda>s. s\<lparr>fakeBreakoutHigh := True\<rparr>) (push SweptHighClosedInside a)
      else a)"

definition checkBreakoutLow :: "calc \<Rightarrow> analysis \<Rightarrow> analysis" where
  "checkBreakoutLow this a =
     (if pdLow this < dbpdLow this then
        let a = set_scenario (\<lambda>s. s\<lparr>breakoutLow := True\<rparr>) a;
            a = add_confluence (- 1) a;
            a = push (BrokeLow (pdLow this) (dbpdLow this)) a
        in if pdClose this < dbpdLow this
           then push ClosedBelowLow (add_confluence (- 1) a)
           else set_scenario (\<lambda>s. s\<lparr>fakeBreakoutLow := True\<rparr>) (push SweptLowClosedInside a)
      else a)"

definition checkInsideBar :: "calc \<Rightarrow> analysis \<Rightarrow> analysis" where
  "checkInsideBar this a =
     (if pdHigh this \<le> dbpdHigh this \<and> pdLow this \<ge> dbpdLow this
      then push InsideBarNote (set_scenario (\<lambda>s. s\<lparr>insideBar := True\<rparr>) a)
      else a)"

definition checkOutsideBar :: "calc \<Rightarrow> analysis \<Rightarrow> analysis" where
  "checkOutsideBar this a =
     (if pdHigh this > dbpdHigh this \<and> pdLow this < dbpdLow this then
        let a = set_scenario (\<lambda>s. s\<lparr>outsideBar := True\<rparr>) a;
            a = push OutsideBarNote a
        in if pdClose this > pdOpen this
           then add_confluence 2 (push OutsideClosedBullish a)
           else add_confluence (- 2) (push OutsideClosedBearish a)
      else a)"

definition checkUptrend :: "calc \<Rightarrow> analysis \<Rightarrow> analysis" where
  "checkUptrend this a =
     (if pdHigh this > dbpdHigh this \<and> pdLow this > dbpdLow this
      then add_confluence 2 (push UptrendNote (set_scenario (\<lambda>s. s\<lparr>uptrend := True\<rparr>) a))
      else a)"

definition checkDowntrend :: "calc \<Rightarrow> analysis \<Rightarrow> analysis" where
  "checkDowntrend this a =
     (if pdHigh this < dbpdHigh this \<and> pdLow this < dbpdLow this
      then add_confluence (- 2) (push DowntrendNote (set_scenario (\<lambda>s. s\<lparr>downtrend := True\<rparr>) a))
      else a)"

definition analyzePriceStructure :: "calc \<Rightarrow> analysis \<Rightarrow> analysis" where
  "analyzePriceStructure this a =
     (let a = checkBreakoutHigh this a;
          a = checkBreakoutLow this a;
          a = checkInsideBar this a;
          a = checkOutsideBar this a;
          a = checkUptrend this a;
          a = checkDowntrend this a
      in a)"

section \<open>Key levels and close position\<close>

definition analyzeLiquiditySweeps :: "calc \<Rightarrow> analysis \<Rightarrow> analysis" where
  "analyzeLiquiditySweeps this a =
     (let a = a\<lparr>keyLevels := Some
                 \<lparr> kl_pdHigh = pdHigh this, kl_pdLow = pdLow this, kl_pdOpen = pdOpen this,
                   kl_pdClose = pdClose this, kl_pdMid = pdMidpoint this,
                   kl_dbpdHigh = dbpdHigh this, kl_dbpdLow = dbpdLow this,
                   kl_dbpdOpen = dbpdOpen this, kl_dbpdClose = dbpdClose this,
                   kl_dbpdMid = dbpdMidpoint this \<rparr>\<rparr>;
          pdClosePosition = ((pdClose this - pdLow this) / pdRange this) * 100
      in if pdClosePosition > 75 then add_confluence 1 (push ClosedUpperQuarter a)
         else if pdClosePosition < 25 then add_confluence (- 1) (push ClosedLowerQuarter a)
         else push ClosedMiddle a)"

section \<open>The resolver\<close>

definition mk_target :: "jsval \<Rightarrow> string \<Rightarrow> target" where
  "mk_target v l = \<lparr> level = v, label = l \<rparr>"

text \<open>
  \<open>determineForecastBias\<close>: a chain of \<open>if\<close> blocks that each end in \<open>return\<close>, followed
  by the three-way choice on the confluence.
\<close>

definition determineForecastBias :: "calc \<Rightarrow> analysis \<Rightarrow> analysis" where
  "determineForecastBias this a =
     (if fakeBreakoutHigh (scenario a) then
        (unshift ForecastSellTheHigh
           (a\<lparr>bias := ''BEARISH REVERSAL'', direction := ''LOOK FOR SELL'', strength := 85\<rparr>))
        \<lparr>bearishSetup := Some
           \<lparr> sweepLevel = Num (pdHigh this),
             entryZone = [NumStr (pdHigh this), Str '' - '', toFixed 5 (pdHigh this * 1.0005)],
             invalidation = toFixed 5 (pdHigh this + pdRange this * 0.3),
             targets =
               [mk_target (toFixed 5 (pdClose this)) ''PD Close'',
                mk_target (toFixed 5 (pdLow this)) ''PD Low'',
                mk_target (toFixed 5 (dbpdLow this)) ''D-2 Low''] \<rparr>\<rparr>
      else if fakeBreakoutLow (scenario a) then
        (unshift ForecastBuyTheDip
           (a\<lparr>bias := ''BULLISH REVERSAL'', direction := ''LOOK FOR BUY'', strength := 85\<rparr>))
        \<lparr>bullishSetup := Some
           \<lparr> sweepLevel = Num (pdLow this),
             entryZone = [toFixed 5 (pdLow this * 0.9995), Str '' - '', NumStr (pdLow this)],
             invalidation = toFixed 5 (pdLow this - pdRange this * 0.3),
             targets =
               [mk_target (toFixed 5 (pdClose this)) ''PD Close'',
                mk_target (toFixed 5 (pdHigh this)) ''PD High'',
                mk_target (toFixed 5 (dbpdHigh this)) ''D-2 High''] \<rparr>\<rparr>
      else if uptrend (scenario a) \<and> isBullish (pdCandle this) then
        (unshift ForecastUptrend
           (a\<lparr>bias := ''BULLISH CONTINUATION'', direction := ''BUY PULLBACKS'',
              strength := min (75 + confluence a * 3) 95\<rparr>))
        \<lparr>bullishSetup := Some
           \<lparr> sweepLevel = Num (pdLow this),
             entryZone = [toFixed 5 (pdLow this - pdRange this * 0.2), Str '' - '',
                          NumStr (pdLow this)],
             invalidation = toFixed 5 (dbpdLow this),
             targets =
               [mk_target (toFixed 5 (pdHigh this)) ''Equal PD High'',
                mk_target (toFixed 5 (pdHigh this + pdRange this * 0.5)) ''Extension 1'',
                mk_target (toFixed 5 (pdHigh this + pdRange this)) ''Extension 2''] \<rparr>\<rparr>
      else if downtrend (scenario a) \<and> isBearish (pdCandle this) then
        (unshift ForecastDowntrend
           (a\<lparr>bias := ''BEARISH CONTINUATION'', direction := ''SELL RALLIES'',
              strength := min (75 + \<bar>confluence a\<bar> * 3) 95\<rparr>))
        \<lparr>bearishSetup := Some
           \<lparr> sweepLevel = Num (pdHigh this),
             entryZone = [NumStr (pdHigh this), Str '' - '',
                          toFixed 5 (pdHigh this + pdRange this * 0.2)],
             invalidation = toFixed 5 (dbpdHigh this),
             targets =
               [mk_target (toFixed 5 (pdLow this)) ''Equal PD Low'',
                mk_target (toFixed 5 (pdLow this - pdRange this * 0.5)) ''Extension 1'',
                mk_target (toFixed 5 (pdLow this - pdRange this)) ''Extension 2''] \<rparr>\<rparr>
      else if insideBar (scenario a) then
        (let a = unshift ForecastInsideBar a;
             a = (if isBullish (pdCandle this) then
                    a\<lparr>bias := ''BULLISH BREAKOUT'', direction := ''BUY ABOVE PD HIGH'',
                      strength := 70\<rparr>
                  else if isBearish (pdCandle this) then
                    a\<lparr>bias := ''BEARISH BREAKOUT'', direction := ''SELL BELOW PD LOW'',
                      strength := 70\<rparr>
                  else
                    a\<lparr>bias := ''NEUTRAL - WAIT'', direction := ''TRADE BREAKOUT'',
                      strength := 50\<rparr>)
         in a\<lparr>bullishSetup := Some
                \<lparr> sweepLevel = Num (pdHigh this),
                  entryZone = [NumStr (pdHigh this), Str '' - '',
                               toFixed 5 (pdHigh this * 1.001)],
                  invalidation = toFixed 5 (pdLow this),
                  targets =
                    [mk_target (toFixed 5 (dbpdHigh this)) ''D-2 High'',
                     mk_target (toFixed 5 (dbpdHigh this + pdRange this)) ''Measured Move''] \<rparr>,
              bearishSetup := Some
                \<lparr> sweepLevel = Num (pdLow this),
                  entryZone = [toFixed 5 (pdLow this * 0.999), Str '' - '',
                               NumStr (pdLow this)],
                  invalidation = toFixed 5 (pdHigh this),
                  targets =
                    [mk_target (toFixed 5 (dbpdLow this)) ''D-2 Low'',
                     mk_target (toFixed 5 (dbpdLow this - pdRange this)) ''Measured Move''] \<rparr>\<rparr>)
      else if confluence a \<ge> 3 then
        a\<lparr>bias := ''BULLISH'', direction := ''LOOK FOR BUY SETUPS'',
          strength := min (60 + confluence a * 5) 95,
          bullishSetup := Some
            \<lparr> sweepLevel = Num (pdLow this),
              entryZone = [toFixed 5 (pdLow this - pdRange this * 0.15), Str '' - '',
                           NumStr (pdLow this)],
              invalidation = toFixed 5 (dbpdLow this),
              targets =
                [mk_target (toFixed 5 (pdHigh this)) ''PD High'',
                 mk_target (toFixed 5 (pdHigh this + pdRange this * 0.618)) ''1.618 Extension''] \<rparr>\<rparr>
      else if confluence a \<le> - 3 then
        a\<lparr>bias := ''BEARISH'', direction := ''LOOK FOR SELL SETUPS'',
          strength := min (60 + \<bar>confluence a\<bar> * 5) 95,
          bearishSetup := Some
            \<lparr> sweepLevel = Num (pdHigh this),
              entryZone = [NumStr (pdHigh this), Str '' - '',
                           toFixed 5 (pdHigh this + pdRange this * 0.15)],
              invalidation = toFixed 5 (dbpdHigh this),
              targets =
                [mk_target (toFixed 5 (pdLow this)) ''PD Low'',
                 mk_target (toFixed 5 (pdLow this - pdRange this * 0.618)) ''1.618 Extension''] \<rparr>\<rparr>
      else
        unshift MixedSignals
          (a\<lparr>bias := ''NEUTRAL'', direction := ''WAIT FOR CLEAR SIGNAL'', strength := 50\<rparr>))"

section \<open>The recommendation and the main method\<close>

fun str_includes :: "string \<Rightarrow> string \<Rightarrow> bool" where
  "str_includes [] t = (t = [])"
| "str_includes (c # cs) t = (take (length t) (c # cs) = t \<or> str_includes cs t)"

text \<open>
  Interpolating the sweep level of a setup into a template literal; the empty object has
  no such key, which prints as \<open>undefined\<close>.
\<close>

definition interpolate_sweep :: "trade_setup option \<Rightarrow> jsval" where
  "interpolate_sweep so =
     (case so of
        None \<Rightarrow> Str ''undefined''
      | Some su \<Rightarrow> (case sweepLevel su of Num x \<Rightarrow> NumStr x | v \<Rightarrow> v))"

definition generateTradingScenarios :: "calc \<Rightarrow> analysis \<Rightarrow> analysis" where
  "generateTradingScenarios this a =
     (if str_includes (bias a) ''BULLISH'' then
        a\<lparr>recommendation :=
            [Str ''Watch for price to sweep or approach '', interpolate_sweep (bullishSetup a),
             Str '', then look for bullish confirmation (rejection wick, bullish engulfing, etc.) for BUY entry.'']\<rparr>
      else if str_includes (bias a) ''BEARISH'' then
        a\<lparr>recommendation :=
            [Str ''Watch for price to sweep or approach '', interpolate_sweep (bearishSetup a),
             Str '', then look for bearish confirmation (rejection wick, bearish engulfing, etc.) for SELL entry.'']\<rparr>
      else
        a\<lparr>recommendation :=
            [Str ''No clear bias. Wait for price to break and close above '', NumStr (pdHigh this),
             Str '' (bullish) or below '', NumStr (pdLow this),
             Str '' (bearish) before entering trades.'']\<rparr>)"

definition calculateBias :: "calc \<Rightarrow> analysis" where
  "calculateBias this =
     (let a = initial_analysis this;
          a = analyzeCandlePatterns this a;
          a = analyzePriceStructure this a;
          a = analyzeLiquiditySweeps this a;
          a = determineForecastBias this a;
          a = generateTradingScenarios this a
      in a)"

section \<open>The form handler\<close>

text \<open>
  The form as \<open>validateInputs\<close> sees it: each numeric field holds what \<open>parseFloat\<close>
  returns for the text of the input box, \<open>None\<close> standing for NaN.
\<close>

record form =
  f_dbpdOpen :: "real option"
  f_dbpdHigh :: "real option"
  f_dbpdLow :: "real option"
  f_dbpdClose :: "real option"
  f_pdOpen :: "real option"
  f_pdHigh :: "real option"
  f_pdLow :: "real option"
  f_pdClose :: "real option"
  f_symbol :: string

text \<open>
  One bar's checks, in the order of the source: NaN, \<open>high <= low\<close>, open outside the
  range, close outside the range. \<open>validateInputs\<close> runs them on D-2 and then on D-1.
\<close>

definition bar_ok :: "real option \<Rightarrow> real option \<Rightarrow> real option \<Rightarrow> real option \<Rightarrow> bool" where
  "bar_ok h l o' c =
     (case (h, l, o', c) of
        (Some hv, Some lv, Some ov, Some cv) \<Rightarrow>
          (if hv \<le> lv then False
           else if ov < lv \<or> ov > hv then False
           else if cv < lv \<or> cv > hv then False
           else True)
      | _ \<Rightarrow> False)"

definition validateInputs :: "form \<Rightarrow> bool" where
  "validateInputs fd =
     (if \<not> bar_ok (f_dbpdHigh fd) (f_dbpdLow fd) (f_dbpdOpen fd) (f_dbpdClose fd) then False
      else if \<not> bar_ok (f_pdHigh fd) (f_pdLow fd) (f_pdOpen fd) (f_pdClose fd) then False
      else True)"

definition parsed :: "form \<Rightarrow> data option" where
  "parsed fd =
     (case (f_dbpdOpen fd, f_dbpdHigh fd, f_dbpdLow fd, f_dbpdClose fd,
            f_pdOpen fd, f_pdHigh fd, f_pdLow fd, f_pdClose fd) of
        (Some o2, Some h2, Some l2, Some c2, Some o1, Some h1, Some l1, Some c1) \<Rightarrow>
          Some \<lparr> in_dbpdOpen = o2, in_dbpdHigh = h2, in_dbpdLow = l2, in_dbpdClose = c2,
                 in_pdOpen = o1, in_pdHigh = h1, in_pdLow = l1, in_pdClose = c1,
                 in_symbol = f_symbol fd \<rparr>
      | _ \<Rightarrow> None)"

text \<open>
  \<open>handleFormSubmit\<close> up to the call of \<open>displayResults\<close>. For a rejected form
  \<open>validateInputs\<close> shows an alert and returns false, and the handler returns without
  building the calculator: nothing is raised, and \<open>AlertAndReturn\<close> stands for that return.
  Arithmetic on NaN is outside the model (\<open>NaNArithmetic\<close>); the validator makes that
  branch unreachable.
\<close>

datatype stop = AlertAndReturn | NaNArithmetic

definition handleFormSubmit :: "form \<Rightarrow> stop + analysis" where
  "handleFormSubmit fd =
     (if \<not> validateInputs fd then Inl AlertAndReturn
      else case parsed fd of
             None \<Rightarrow> Inl NaNArithmetic
           | Some d \<Rightarrow> Inr (calculateBias (BiasCalculator d)))"

section \<open>The classifier in double arithmetic\<close>

text \<open>
  Rounding to the nearest double, ties to even: \<open>binade\<close> finds the exponent \<open>e\<close> with
  \<open>2^e <= x < 2^(e+1)\<close> by halving or doubling (at most 1100 times, which covers every
  finite double), the exponent is not taken below \<open>-1022\<close> (the subnormal range), and the
  value is rounded to a multiple of \<open>2^(e-52)\<close>. A result beyond the largest double would be
  an infinity and is outside the model. \<open>parseFloat\<close> of a decimal numeral is \<open>fround\<close> of its
  value.
\<close>

definition pow2 :: "int \<Rightarrow> real" where
  "pow2 k = (if 0 \<le> k then 2 ^ nat k else 1 / 2 ^ nat (- k))"

fun binade :: "nat \<Rightarrow> real \<Rightarrow> int" where
  "binade 0 x = 0"
| "binade (Suc n) x =
     (if 2 \<le> x then binade n (x / 2) + 1
      else if x < 1 then binade n (x * 2) - 1
      else 0)"

definition rne :: "real \<Rightarrow> int" where
  "rne y =
     (let f = \<lfloor>y\<rfloor>; r = y - of_int f
      in if r < 1 / 2 then f
         else if 1 / 2 < r then f + 1
         else if even f then f else f + 1)"

definition fround :: "real \<Rightarrow> real" where
  "fround x =
     (if x = 0 then 0
      else
        let e = max (binade 1100 \<bar>x\<bar>) (- 1022);
            u = pow2 (e - 52)
        in of_int (rne (x / u)) * u)"

text \<open>
  \<open>analyzeCandleType\<close> with each subtraction, division and multiplication rounded;
  \<open>Math.abs\<close>, \<open>Math.max\<close>, \<open>Math.min\<close> and the comparisons are exact on doubles.
  \<open>bodyPercent_double\<close> is the number the method holds in \<open>bodyPercent\<close>.
\<close>

definition analyzeCandleType_double :: "real \<Rightarrow> real \<Rightarrow> real \<Rightarrow> real \<Rightarrow> candle" where
  "analyzeCandleType_double opn cls hi lo =
     (let bdy = \<bar>fround (cls - opn)\<bar>;
          rng = fround (hi - lo);
          bp = fround (fround (bdy / rng) * 100);
          uw = fround (hi - max opn cls);
          lw = fround (min opn cls - lo);
          bull = (cls > opn);
          bear = (cls < opn);
          doji = (bp < 10);
          (ty, st) =
            (if doji then (''DOJI'', 0)
             else if bull then
               (if bp > 70 then (''STRONG BULLISH'', 3)
                else if bp > 50 then (''BULLISH'', 2)
                else (''WEAK BULLISH'', 1))
             else if bear then
               (if bp > 70 then (''STRONG BEARISH'', - 3)
                else if bp > 50 then (''BEARISH'', - 2)
                else (''WEAK BEARISH'', - 1))
             else (''NEUTRAL'', 0))
      in \<lparr> ctype = ty, isBullish = bull, isBearish = bear, isDoji = doji, cstrength = st,
           body = bdy, bodyPercent = toFixed 1 bp, upperWick = uw, lowerWick = lw,
           hasUpperWickRejection = (uw > fround (bdy * 2)),
           hasLowerWickRejection = (lw > fround (bdy * 2)),
           copen = opn, cclose = cls, chigh = hi, clow = lo \<rparr>)"

definition bodyPercent_double :: "real \<Rightarrow> real \<Rightarrow> real \<Rightarrow> real \<Rightarrow> real" where
  "bodyPercent_double opn cls hi lo = fround (fround (\<bar>fround (cls - opn)\<bar> / fround (hi - lo)) * 100)"

section \<open>Vocabulary of the properties\<close>

text \<open>
  A bar is valid when \<open>high > low\<close> and open and close lie within \<open>[low, high]\<close>;
  \<open>classify\<close> is the constructor followed by \<open>calculateBias\<close>, as the form handler
  calls them; \<open>mk_data\<close> builds an input from D-2's and D-1's open, high, low, close.
\<close>

text \<open>The five flags the resolver reads.\<close>

definition resolver_flags :: "scenario \<Rightarrow> bool \<times> bool \<times> bool \<times> bool \<times> bool" where
  "resolver_flags s = (fakeBreakoutHigh s, fakeBreakoutLow s, uptrend s, downtrend s, insideBar s)"

text \<open>The state the resolver receives: the three analyzers run on the initial state.\<close>

definition analyzed :: "calc \<Rightarrow> analysis" where
  "analyzed this =
     analyzeLiquiditySweeps this
       (analyzePriceStructure this (analyzeCandlePatterns this (initial_analysis this)))"

definition valid_bar :: "real \<Rightarrow> real \<Rightarrow> real \<Rightarrow> real \<Rightarrow> bool" where
  "valid_bar opn hi lo cls = (hi > lo \<and> lo \<le> opn \<and> opn \<le> hi \<and> lo \<le> cls \<and> cls \<le> hi)"

definition valid_pair :: "data \<Rightarrow> bool" where
  "valid_pair d =
     (valid_bar (in_dbpdOpen d) (in_dbpdHigh d) (in_dbpdLow d) (in_dbpdClose d) \<and>
      valid_bar (in_pdOpen d) (in_pdHigh d) (in_pdLow d) (in_pdClose d))"

definition mk_data ::
  "real \<Rightarrow> real \<Rightarrow> real \<Rightarrow> real \<Rightarrow> real \<Rightarrow> real \<Rightarrow> real \<Rightarrow> real \<Rightarrow> data" where
  "mk_data o2 h2 l2 c2 o1 h1 l1 c1 =
     \<lparr> in_dbpdOpen = o2, in_dbpdHigh = h2, in_dbpdLow = l2, in_dbpdClose = c2,
       in_pdOpen = o1, in_pdHigh = h1, in_pdLow = l1, in_pdClose = c1, in_symbol = ''EURUSD'' \<rparr>"

definition classify :: "data \<Rightarrow> analysis" where
  "classify d = calculateBias (BiasCalculator d)"

text \<open>The documented sweep scenario, with the numbers as they are given.\<close>

definition documented_scenario :: data where
  "documented_scenario = mk_data 1.10 1.12 1.09 1.115 1.115 1.118 1.095 1.097"

text \<open>
  The ten labels that \<open>determineForecastBias\<close> assigns, in the order of its rules, and
  one valid input for each of them.
\<close>

definition bias_labels :: "string list" where
  "bias_labels =
     [''BEARISH REVERSAL'', ''BULLISH REVERSAL'', ''BULLISH CONTINUATION'',
      ''BEARISH CONTINUATION'', ''BULLISH BREAKOUT'', ''BEARISH BREAKOUT'', ''NEUTRAL - WAIT'',
      ''BULLISH'', ''BEARISH'', ''NEUTRAL'']"

definition label_samples :: "data list" where
  "label_samples =
     [mk_data 6 10 5 9 7 11 6 9,
      mk_data 9 10 5 6 6 9 4 8,
      mk_data 6 10 5 9 7 12 6 11,
      mk_data 9 10 5 6 8 9 3 4,
      mk_data 9 10 5 6 6 9 6 8,
      mk_data 9 10 5 6 8 9 6 7,
      mk_data 9 10 5 6 8 9 6 8,
      mk_data 7 10 5 7 8 12 5 11,
      mk_data 7 10 5 7 8 10 3 4,
      mk_data 9 10 5 6 12 20 6 11]"

definition bias_of :: "data \<Rightarrow> string" where
  "bias_of d = bias (classify d)"

text \<open>
  An input is invalid when a field is NaN, or a bar has \<open>high <= low\<close>, or an open or a
  close lies outside \<open>[low, high]\<close>.
\<close>

definition invalid_input :: "form \<Rightarrow> bool" where
  "invalid_input fd = (case parsed fd of None \<Rightarrow> True | Some d \<Rightarrow> \<not> valid_pair d)"

text \<open>
  What a trade setup looks like: the sweep level is a plain number, \<open>hi\<close> or \<open>lo\<close>; the
  entry zone joins that number, converted by default, and a \<open>toFixed(5)\<close> string, in
  either order; the invalidation and every target level are \<open>toFixed(5)\<close> results.
\<close>

definition entry_zone_ok :: "real \<Rightarrow> jsval list \<Rightarrow> bool" where
  "entry_zone_ok v ez =
     (case ez of
        [x, sep, y] \<Rightarrow>
          sep = Str '' - '' \<and> ((x = NumStr v \<and> rendered 5 y) \<or> (rendered 5 x \<and> y = NumStr v))
      | _ \<Rightarrow> False)"

definition setup_ok :: "real \<Rightarrow> real \<Rightarrow> trade_setup \<Rightarrow> bool" where
  "setup_ok hi lo s =
     (((sweepLevel s = Num hi \<and> entry_zone_ok hi (entryZone s)) \<or>
       (sweepLevel s = Num lo \<and> entry_zone_ok lo (entryZone s))) \<and>
      rendered 5 (invalidation s) \<and>
      list_all (rendered 5) (map level (targets s)))"

text \<open>
  Further concrete inputs: the D-2 bar of the documented scenario followed by a D-1 bar whose
  high is above the D-2 high and whose close is back inside; an inside bar whose D-1 candle
  is a doji closing above its open; a form whose D-1 bar has \<open>high = low\<close>.
\<close>

definition swept_high :: data where
  "swept_high = mk_data 1.10 1.12 1.09 1.115 1.115 1.125 1.095 1.097"

definition doji_inside :: data where
  "doji_inside = mk_data 9 10 5 6 7 9 6 7.1"

text \<open>
  An input the validator rejects, given to the calculator directly: the D-1 high (1.10) is
  below the D-1 low (1.11).
\<close>

definition inverted_bar :: data where
  "inverted_bar = mk_data 1.10 1.12 1.09 1.115 1.102 1.10 1.11 1.108"

definition flat_form :: form where
  "flat_form =
     \<lparr> f_dbpdOpen = Some 1.10, f_dbpdHigh = Some 1.12, f_dbpdLow = Some 1.09,
       f_dbpdClose = Some 1.115, f_pdOpen = Some 1.1, f_pdHigh = Some 1.1, f_pdLow = Some 1.1,
       f_pdClose = Some 1.1, f_symbol = ''EURUSD'' \<rparr>"

section \<open>Renderings produced by toFixed\<close>

lemma digit_char_is_digit: "d < 10 \<Longrightarrow> is_digit (digit_char d)"
  unfolding is_digit_def digit_char_def by (rule nth_mem) simp

lemma digits_of_digits: "list_all is_digit (digits_of n)"
proof (induction n rule: digits_of.induct)
  case (1 n)
  show ?case
  proof (cases "n < 10")
    case True
    then show ?thesis by (subst digits_of.simps) (simp add: digit_char_is_digit)
  next
    case False
    with 1 have "list_all is_digit (digits_of (n div 10))" by simp
    moreover have "is_digit (digit_char (n mod 10))" by (rule digit_char_is_digit) simp
    ultimately show ?thesis using False by (subst digits_of.simps) simp
  qed
qed

lemma fixed_point_string_compose:
  assumes a: "a \<noteq> []" "list_all is_digit a" and b: "length b = f" "list_all is_digit b"
    and that: "sg = [] \<or> sg = ''-''"
  shows "fixed_point_string f (sg @ a @ ''.'' @ b)"
proof -
  obtain c cs where acs: "a = c # cs" using a(1) by (cases a) auto
  have cd: "is_digit c" using a(2) acs by simp
  have cm: "c \<noteq> CHR ''-''" using cd by (auto simp: is_digit_def)
  have nd: "\<not> is_digit (CHR ''.'')" by (simp add: is_digit_def)
  have u: "(case sg @ a @ ''.'' @ b of [] \<Rightarrow> [] | c # cs \<Rightarrow> if c = CHR ''-'' then cs else sg @ a @ ''.'' @ b) = a @ ''.'' @ b"
    using that acs cm by auto
  have tw: "takeWhile is_digit (a @ ''.'' @ b) = a"
    using a(2) nd by (simp add: takeWhile_append2 list_all_iff)
  have dw: "dropWhile is_digit (a @ ''.'' @ b) = ''.'' @ b"
    using a(2) nd by (simp add: dropWhile_append2 list_all_iff)
  show ?thesis
    unfolding fixed_point_string_def u Let_def tw dw using a b by simp
qed

lemma rendered_toFixed:
  assumes "0 < f"
  shows "rendered f (toFixed f x)"
proof (cases "10 ^ 21 \<le> \<bar>x\<bar>")
  case True
  then show ?thesis by (simp add: toFixed_def)
next
  case False
  define n where "n = nat \<lfloor>\<bar>x\<bar> * 10 ^ f + 1 / 2\<rfloor>"
  define m where "m = (if length (digits_of n) \<le> f
       then replicate (f + 1 - length (digits_of n)) (CHR ''0'') @ digits_of n else digits_of n)"
  have z: "is_digit (CHR ''0'')" by (simp add: is_digit_def)
  have md: "list_all is_digit m"
    using digits_of_digits [of n] z by (simp add: m_def list_all_iff)
  have ml: "f < length m" by (simp add: m_def)
  have eq: "toFixed f x =
      Str ((if x < 0 then ''-'' else []) @ take (length m - f) m @ ''.'' @ drop (length m - f) m)"
    using False assms by (simp add: toFixed_def Let_def n_def m_def)
  have "fixed_point_string f
      ((if x < 0 then ''-'' else []) @ take (length m - f) m @ ''.'' @ drop (length m - f) m)"
  proof (rule fixed_point_string_compose)
    show "take (length m - f) m \<noteq> []" using ml by auto
    show "list_all is_digit (take (length m - f) m)"
      using md by (auto simp: list_all_iff dest: in_set_takeD)
    show "length (drop (length m - f) m) = f" using ml by simp
    show "list_all is_digit (drop (length m - f) m)"
      using md by (auto simp: list_all_iff dest: in_set_dropD)
    show "(if x < 0 then ''-'' else []) = [] \<or> (if x < 0 then ''-'' else []) = ''-''" by simp
  qed
  then show ?thesis by (simp add: eq)
qed


section \<open>Effect of the analyzers on the state\<close>

lemma push_sel [simp]:
  "bias (push n a) = bias a" "strength (push n a) = strength a"
  "scenario (push n a) = scenario a" "confluence (push n a) = confluence a"
  "bullishSetup (push n a) = bullishSetup a" "bearishSetup (push n a) = bearishSetup a"
  by (simp_all add: push_def)

lemma unshift_sel [simp]:
  "bias (unshift n a) = bias a" "strength (unshift n a) = strength a"
  "scenario (unshift n a) = scenario a" "confluence (unshift n a) = confluence a"
  "bullishSetup (unshift n a) = bullishSetup a" "bearishSetup (unshift n a) = bearishSetup a"
  by (simp_all add: unshift_def)

lemma add_confluence_sel [simp]:
  "bias (add_confluence k a) = bias a" "strength (add_confluence k a) = strength a"
  "scenario (add_confluence k a) = scenario a" "confluence (add_confluence k a) = confluence a + k"
  "bullishSetup (add_confluence k a) = bullishSetup a"
  "bearishSetup (add_confluence k a) = bearishSetup a"
  by (simp_all add: add_confluence_def)

lemma set_scenario_sel [simp]:
  "bias (set_scenario f a) = bias a" "strength (set_scenario f a) = strength a"
  "scenario (set_scenario f a) = f (scenario a)" "confluence (set_scenario f a) = confluence a"
  "bullishSetup (set_scenario f a) = bullishSetup a"
  "bearishSetup (set_scenario f a) = bearishSetup a"
  by (simp_all add: set_scenario_def)

lemmas pattern_blocks =
  noteCandles_def checkTwoBullish_def checkTwoBearish_def checkReversalUp_def
  checkReversalDown_def checkUpperWick_def checkLowerWick_def checkDoji_def checkMomentum_def

lemma pattern_block_flags [simp]:
  "resolver_flags (scenario (noteCandles this a)) = resolver_flags (scenario a)"
  "resolver_flags (scenario (checkTwoBullish this a)) = resolver_flags (scenario a)"
  "resolver_flags (scenario (checkTwoBearish this a)) = resolver_flags (scenario a)"
  "resolver_flags (scenario (checkReversalUp this a)) = resolver_flags (scenario a)"
  "resolver_flags (scenario (checkReversalDown this a)) = resolver_flags (scenario a)"
  "resolver_flags (scenario (checkUpperWick this a)) = resolver_flags (scenario a)"
  "resolver_flags (scenario (checkLowerWick this a)) = resolver_flags (scenario a)"
  "resolver_flags (scenario (checkDoji this a)) = resolver_flags (scenario a)"
  "resolver_flags (scenario (checkMomentum this a)) = resolver_flags (scenario a)"
  by (simp_all add: pattern_blocks resolver_flags_def Let_def)

lemma patterns_flags:
  "resolver_flags (scenario (analyzeCandlePatterns this a)) = resolver_flags (scenario a)"
  by (simp add: analyzeCandlePatterns_def Let_def)

lemma pattern_block_setups [simp]:
  "bullishSetup (noteCandles this a) = bullishSetup a"
  "bullishSetup (checkTwoBullish this a) = bullishSetup a"
  "bullishSetup (checkTwoBearish this a) = bullishSetup a"
  "bullishSetup (checkReversalUp this a) = bullishSetup a"
  "bullishSetup (checkReversalDown this a) = bullishSetup a"
  "bullishSetup (checkUpperWick this a) = bullishSetup a"
  "bullishSetup (checkLowerWick this a) = bullishSetup a"
  "bullishSetup (checkDoji this a) = bullishSetup a"
  "bullishSetup (checkMomentum this a) = bullishSetup a"
  "bearishSetup (noteCandles this a) = bearishSetup a"
  "bearishSetup (checkTwoBullish this a) = bearishSetup a"
  "bearishSetup (checkTwoBearish this a) = bearishSetup a"
  "bearishSetup (checkReversalUp this a) = bearishSetup a"
  "bearishSetup (checkReversalDown this a) = bearishSetup a"
  "bearishSetup (checkUpperWick this a) = bearishSetup a"
  "bearishSetup (checkLowerWick this a) = bearishSetup a"
  "bearishSetup (checkDoji this a) = bearishSetup a"
  "bearishSetup (checkMomentum this a) = bearishSetup a"
  by (simp_all add: pattern_blocks Let_def)

lemma patterns_setups:
  "bullishSetup (analyzeCandlePatterns this a) = bullishSetup a"
  "bearishSetup (analyzeCandlePatterns this a) = bearishSetup a"
  by (simp_all add: analyzeCandlePatterns_def Let_def)

lemmas structure_blocks =
  checkBreakoutHigh_def checkBreakoutLow_def checkInsideBar_def checkOutsideBar_def
  checkUptrend_def checkDowntrend_def

lemma structure_block_setups [simp]:
  "bullishSetup (checkBreakoutHigh this a) = bullishSetup a"
  "bullishSetup (checkBreakoutLow this a) = bullishSetup a"
  "bullishSetup (checkInsideBar this a) = bullishSetup a"
  "bullishSetup (checkOutsideBar this a) = bullishSetup a"
  "bullishSetup (checkUptrend this a) = bullishSetup a"
  "bullishSetup (checkDowntrend this a) = bullishSetup a"
  "bearishSetup (checkBreakoutHigh this a) = bearishSetup a"
  "bearishSetup (checkBreakoutLow this a) = bearishSetup a"
  "bearishSetup (checkInsideBar this a) = bearishSetup a"
  "bearishSetup (checkOutsideBar this a) = bearishSetup a"
  "bearishSetup (checkUptrend this a) = bearishSetup a"
  "bearishSetup (checkDowntrend this a) = bearishSetup a"
  by (simp_all add: structure_blocks Let_def)

lemma structure_setups:
  "bullishSetup (analyzePriceStructure this a) = bullishSetup a"
  "bearishSetup (analyzePriceStructure this a) = bearishSetup a"
  by (simp_all add: analyzePriceStructure_def Let_def)

lemma sweeps_sel:
  "bullishSetup (analyzeLiquiditySweeps this a) = bullishSetup a"
  "bearishSetup (analyzeLiquiditySweeps this a) = bearishSetup a"
  "scenario (analyzeLiquiditySweeps this a) = scenario a"
  by (simp_all add: analyzeLiquiditySweeps_def Let_def)

text \<open>What each structural block does to the five flags.\<close>

lemma checkBreakoutHigh_flags:
  "resolver_flags (scenario (checkBreakoutHigh this a)) =
     (case resolver_flags (scenario a) of (fh, r) \<Rightarrow>
        (fh \<or> (pdHigh this > dbpdHigh this \<and> \<not> pdClose this > dbpdHigh this), r))"
  by (simp add: checkBreakoutHigh_def resolver_flags_def Let_def)

lemma checkBreakoutLow_flags:
  "resolver_flags (scenario (checkBreakoutLow this a)) =
     (case resolver_flags (scenario a) of (fh, fl, r) \<Rightarrow>
        (fh, fl \<or> (pdLow this < dbpdLow this \<and> \<not> pdClose this < dbpdLow this), r))"
  by (simp add: checkBreakoutLow_def resolver_flags_def Let_def)

lemma checkInsideBar_flags:
  "resolver_flags (scenario (checkInsideBar this a)) =
     (case resolver_flags (scenario a) of (fh, fl, u, d, i) \<Rightarrow>
        (fh, fl, u, d, i \<or> (pdHigh this \<le> dbpdHigh this \<and> pdLow this \<ge> dbpdLow this)))"
  by (auto simp add: checkInsideBar_def resolver_flags_def Let_def)

lemma checkOutsideBar_flags:
  "resolver_flags (scenario (checkOutsideBar this a)) = resolver_flags (scenario a)"
  by (simp add: checkOutsideBar_def resolver_flags_def Let_def)

lemma checkUptrend_flags:
  "resolver_flags (scenario (checkUptrend this a)) =
     (case resolver_flags (scenario a) of (fh, fl, u, r) \<Rightarrow>
        (fh, fl, u \<or> (pdHigh this > dbpdHigh this \<and> pdLow this > dbpdLow this), r))"
  by (auto simp add: checkUptrend_def resolver_flags_def Let_def)

lemma checkDowntrend_flags:
  "resolver_flags (scenario (checkDowntrend this a)) =
     (case resolver_flags (scenario a) of (fh, fl, u, d, i) \<Rightarrow>
        (fh, fl, u, d \<or> (pdHigh this < dbpdHigh this \<and> pdLow this < dbpdLow this), i))"
  by (auto simp add: checkDowntrend_def resolver_flags_def Let_def)

lemma analyzed_flags:
  "resolver_flags (scenario (analyzed this)) =
     (pdHigh this > dbpdHigh this \<and> \<not> pdClose this > dbpdHigh this,
      pdLow this < dbpdLow this \<and> \<not> pdClose this < dbpdLow this,
      pdHigh this > dbpdHigh this \<and> pdLow this > dbpdLow this,
      pdHigh this < dbpdHigh this \<and> pdLow this < dbpdLow this,
      pdHigh this \<le> dbpdHigh this \<and> pdLow this \<ge> dbpdLow this)"
proof -
  have init: "resolver_flags (scenario (analyzeCandlePatterns this (initial_analysis this)))
      = (False, False, False, False, False)"
    by (simp add: patterns_flags) (simp add: resolver_flags_def initial_analysis_def no_scenario_def)
  show ?thesis
    unfolding analyzed_def sweeps_sel analyzePriceStructure_def Let_def
    by (simp add: checkBreakoutHigh_flags checkBreakoutLow_flags checkInsideBar_flags
        checkOutsideBar_flags checkUptrend_flags checkDowntrend_flags init)
qed

lemma analyzed_setups:
  "bullishSetup (analyzed this) = None" "bearishSetup (analyzed this) = None"
  by (simp_all add: analyzed_def sweeps_sel structure_setups patterns_setups initial_analysis_def)

lemma calculateBias_eq:
  "calculateBias this = generateTradingScenarios this (determineForecastBias this (analyzed this))"
  by (simp add: calculateBias_def analyzed_def Let_def)


lemma analyzed_flag_sel:
  "fakeBreakoutHigh (scenario (analyzed this)) =
     (pdHigh this > dbpdHigh this \<and> \<not> pdClose this > dbpdHigh this)"
  "fakeBreakoutLow (scenario (analyzed this)) =
     (pdLow this < dbpdLow this \<and> \<not> pdClose this < dbpdLow this)"
  "uptrend (scenario (analyzed this)) = (pdHigh this > dbpdHigh this \<and> pdLow this > dbpdLow this)"
  "downtrend (scenario (analyzed this)) = (pdHigh this < dbpdHigh this \<and> pdLow this < dbpdLow this)"
  "insideBar (scenario (analyzed this)) = (pdHigh this \<le> dbpdHigh this \<and> pdLow this \<ge> dbpdLow this)"
  using analyzed_flags [of this] by (simp_all add: resolver_flags_def)

lemma pattern_block_conf:
  "confluence (noteCandles this a) = confluence a"
  "confluence (checkTwoBullish this a) =
     confluence a + (if isBullish (dbpdCandle this) \<and> isBullish (pdCandle this) then 2 else 0)"
  "confluence (checkTwoBearish this a) =
     confluence a - (if isBearish (dbpdCandle this) \<and> isBearish (pdCandle this) then 2 else 0)"
  "confluence (checkReversalUp this a) =
     confluence a + (if isBearish (dbpdCandle this) \<and> isBullish (pdCandle this) then 1 else 0)"
  "confluence (checkReversalDown this a) =
     confluence a - (if isBullish (dbpdCandle this) \<and> isBearish (pdCandle this) then 1 else 0)"
  "confluence (checkUpperWick this a) =
     confluence a - (if hasUpperWickRejection (pdCandle this) then 1 else 0)"
  "confluence (checkLowerWick this a) =
     confluence a + (if hasLowerWickRejection (pdCandle this) then 1 else 0)"
  "confluence (checkDoji this a) = confluence a"
  "confluence (checkMomentum this a) = confluence a"
  by (simp_all add: pattern_blocks Let_def)

lemma patterns_conf_bound:
  "\<bar>confluence (analyzeCandlePatterns this a) - confluence a\<bar> \<le> 8"
  by (simp add: analyzeCandlePatterns_def Let_def pattern_block_conf)

lemma structure_block_conf:
  "confluence (checkBreakoutHigh this a) =
     confluence a + (if pdHigh this > dbpdHigh this
                     then (if pdClose this > dbpdHigh this then 2 else 1) else 0)"
  "confluence (checkBreakoutLow this a) =
     confluence a - (if pdLow this < dbpdLow this
                     then (if pdClose this < dbpdLow this then 2 else 1) else 0)"
  "confluence (checkInsideBar this a) = confluence a"
  "confluence (checkOutsideBar this a) =
     confluence a + (if pdHigh this > dbpdHigh this \<and> pdLow this < dbpdLow this
                     then (if pdClose this > pdOpen this then 2 else - 2) else 0)"
  "confluence (checkUptrend this a) =
     confluence a + (if pdHigh this > dbpdHigh this \<and> pdLow this > dbpdLow this then 2 else 0)"
  "confluence (checkDowntrend this a) =
     confluence a - (if pdHigh this < dbpdHigh this \<and> pdLow this < dbpdLow this then 2 else 0)"
  by (simp_all add: structure_blocks Let_def)

lemma structure_conf_bound:
  "\<bar>confluence (analyzePriceStructure this a) - confluence a\<bar> \<le> 10"
  by (simp add: analyzePriceStructure_def Let_def structure_block_conf)

lemma sweeps_conf_bound:
  "\<bar>confluence (analyzeLiquiditySweeps this a) - confluence a\<bar> \<le> 1"
  by (simp add: analyzeLiquiditySweeps_def Let_def)

lemma analyzed_conf_bound: "\<bar>confluence (analyzed this)\<bar> \<le> 19"
proof -
  define a1 where "a1 = analyzeCandlePatterns this (initial_analysis this)"
  define a2 where "a2 = analyzePriceStructure this a1"
  have "confluence (initial_analysis this) = 0" by (simp add: initial_analysis_def)
  then have "\<bar>confluence a1\<bar> \<le> 8"
    using patterns_conf_bound [of this "initial_analysis this"] by (simp add: a1_def)
  moreover have "\<bar>confluence a2 - confluence a1\<bar> \<le> 10"
    unfolding a2_def by (rule structure_conf_bound)
  moreover have "\<bar>confluence (analyzed this) - confluence a2\<bar> \<le> 1"
    unfolding analyzed_def a2_def a1_def by (rule sweeps_conf_bound)
  ultimately show ?thesis by linarith
qed

section \<open>The resolver as a function of the flags\<close>

lemma generate_sel:
  "bias (generateTradingScenarios this a) = bias a"
  "strength (generateTradingScenarios this a) = strength a"
  "scenario (generateTradingScenarios this a) = scenario a"
  "confluence (generateTradingScenarios this a) = confluence a"
  "bullishSetup (generateTradingScenarios this a) = bullishSetup a"
  "bearishSetup (generateTradingScenarios this a) = bearishSetup a"
  by (simp_all add: generateTradingScenarios_def)

lemma determine_keeps:
  "scenario (determineForecastBias this a) = scenario a"
  "confluence (determineForecastBias this a) = confluence a"
  by (simp_all add: determineForecastBias_def Let_def)

lemma calculateBias_keeps:
  "scenario (calculateBias this) = scenario (analyzed this)"
  "confluence (calculateBias this) = confluence (analyzed this)"
  by (simp_all add: calculateBias_eq generate_sel determine_keeps)

lemma determine_bias:
  "bias (determineForecastBias this a) =
     (if fakeBreakoutHigh (scenario a) then ''BEARISH REVERSAL''
      else if fakeBreakoutLow (scenario a) then ''BULLISH REVERSAL''
      else if uptrend (scenario a) \<and> isBullish (pdCandle this) then ''BULLISH CONTINUATION''
      else if downtrend (scenario a) \<and> isBearish (pdCandle this) then ''BEARISH CONTINUATION''
      else if insideBar (scenario a) then
        (if isBullish (pdCandle this) then ''BULLISH BREAKOUT''
         else if isBearish (pdCandle this) then ''BEARISH BREAKOUT''
         else ''NEUTRAL - WAIT'')
      else if confluence a \<ge> 3 then ''BULLISH''
      else if confluence a \<le> - 3 then ''BEARISH''
      else ''NEUTRAL'')"
  by (simp add: determineForecastBias_def Let_def)

lemma determine_strength:
  "strength (determineForecastBias this a) =
     (if fakeBreakoutHigh (scenario a) then 85
      else if fakeBreakoutLow (scenario a) then 85
      else if uptrend (scenario a) \<and> isBullish (pdCandle this) then min (75 + confluence a * 3) 95
      else if downtrend (scenario a) \<and> isBearish (pdCandle this)
        then min (75 + \<bar>confluence a\<bar> * 3) 95
      else if insideBar (scenario a) then
        (if isBullish (pdCandle this) then 70
         else if isBearish (pdCandle this) then 70
         else 50)
      else if confluence a \<ge> 3 then min (60 + confluence a * 5) 95
      else if confluence a \<le> - 3 then min (60 + \<bar>confluence a\<bar> * 5) 95
      else 50)"
  by (simp add: determineForecastBias_def Let_def)

lemma candle_direction:
  "isBullish (analyzeCandleType opn cls hi lo) = (cls > opn)"
  "isBearish (analyzeCandleType opn cls hi lo) = (cls < opn)"
  "isDoji (analyzeCandleType opn cls hi lo) = (\<bar>cls - opn\<bar> / (hi - lo) * 100 < 10)"
  by (simp_all add: analyzeCandleType_def Let_def split: prod.splits)

lemma candle_body_percent:
  "rendered 1 (bodyPercent (analyzeCandleType opn cls hi lo))"
  by (simp add: analyzeCandleType_def Let_def rendered_toFixed split: prod.splits)

lemma calc_sel:
  "pdHigh (BiasCalculator d) = in_pdHigh d" "pdLow (BiasCalculator d) = in_pdLow d"
  "pdOpen (BiasCalculator d) = in_pdOpen d" "pdClose (BiasCalculator d) = in_pdClose d"
  "dbpdHigh (BiasCalculator d) = in_dbpdHigh d" "dbpdLow (BiasCalculator d) = in_dbpdLow d"
  "dbpdOpen (BiasCalculator d) = in_dbpdOpen d" "dbpdClose (BiasCalculator d) = in_dbpdClose d"
  "pdCandle (BiasCalculator d) =
     analyzeCandleType (in_pdOpen d) (in_pdClose d) (in_pdHigh d) (in_pdLow d)"
  "dbpdCandle (BiasCalculator d) =
     analyzeCandleType (in_dbpdOpen d) (in_dbpdClose d) (in_dbpdHigh d) (in_dbpdLow d)"
  "pdRange (BiasCalculator d) = in_pdHigh d - in_pdLow d"
  by (simp_all add: BiasCalculator_def)


lemma mk_data_sel [simp]:
  "in_dbpdOpen (mk_data o2 h2 l2 c2 o1 h1 l1 c1) = o2"
  "in_dbpdHigh (mk_data o2 h2 l2 c2 o1 h1 l1 c1) = h2"
  "in_dbpdLow (mk_data o2 h2 l2 c2 o1 h1 l1 c1) = l2"
  "in_dbpdClose (mk_data o2 h2 l2 c2 o1 h1 l1 c1) = c2"
  "in_pdOpen (mk_data o2 h2 l2 c2 o1 h1 l1 c1) = o1"
  "in_pdHigh (mk_data o2 h2 l2 c2 o1 h1 l1 c1) = h1"
  "in_pdLow (mk_data o2 h2 l2 c2 o1 h1 l1 c1) = l1"
  "in_pdClose (mk_data o2 h2 l2 c2 o1 h1 l1 c1) = c1"
  by (simp_all add: mk_data_def)

lemma candle_wicks:
  "hasUpperWickRejection (analyzeCandleType opn cls hi lo) = (hi - max opn cls > \<bar>cls - opn\<bar> * 2)"
  "hasLowerWickRejection (analyzeCandleType opn cls hi lo) = (min opn cls - lo > \<bar>cls - opn\<bar> * 2)"
  by (simp_all add: analyzeCandleType_def Let_def split: prod.splits)

lemma sweeps_conf:
  "confluence (analyzeLiquiditySweeps this a) =
     confluence a +
       (if (pdClose this - pdLow this) / pdRange this * 100 > 75 then 1
        else if (pdClose this - pdLow this) / pdRange this * 100 < 25 then - 1 else 0)"
  by (simp add: analyzeLiquiditySweeps_def Let_def)

lemma analyzed_conf:
  "confluence (analyzed this) =
     (if isBullish (dbpdCandle this) \<and> isBullish (pdCandle this) then 2 else 0)
     - (if isBearish (dbpdCandle this) \<and> isBearish (pdCandle this) then 2 else 0)
     + (if isBearish (dbpdCandle this) \<and> isBullish (pdCandle this) then 1 else 0)
     - (if isBullish (dbpdCandle this) \<and> isBearish (pdCandle this) then 1 else 0)
     - (if hasUpperWickRejection (pdCandle this) then 1 else 0)
     + (if hasLowerWickRejection (pdCandle this) then 1 else 0)
     + (if pdHigh this > dbpdHigh this
        then (if pdClose this > dbpdHigh this then 2 else 1) else 0)
     - (if pdLow this < dbpdLow this
        then (if pdClose this < dbpdLow this then 2 else 1) else 0)
     + (if pdHigh this > dbpdHigh this \<and> pdLow this < dbpdLow this
        then (if pdClose this > pdOpen this then 2 else - 2) else 0)
     + (if pdHigh this > dbpdHigh this \<and> pdLow this > dbpdLow this then 2 else 0)
     - (if pdHigh this < dbpdHigh this \<and> pdLow this < dbpdLow this then 2 else 0)
     + (if (pdClose this - pdLow this) / pdRange this * 100 > 75 then 1
        else if (pdClose this - pdLow this) / pdRange this * 100 < 25 then - 1 else 0)"
  unfolding analyzed_def analyzePriceStructure_def analyzeCandlePatterns_def Let_def
    sweeps_conf structure_block_conf pattern_block_conf
  by (simp add: initial_analysis_def)

lemmas run_simps =
  classify_def calculateBias_eq generate_sel determine_keeps determine_bias determine_strength
  analyzed_flag_sel analyzed_conf calc_sel candle_direction candle_wicks
  valid_pair_def valid_bar_def

lemma determine_sweeps:
  assumes "bullishSetup a = None" "bearishSetup a = None"
  shows "map_option sweepLevel (bullishSetup (determineForecastBias this a)) =
     (if fakeBreakoutHigh (scenario a) then None
      else if fakeBreakoutLow (scenario a) then Some (Num (pdLow this))
      else if uptrend (scenario a) \<and> isBullish (pdCandle this) then Some (Num (pdLow this))
      else if downtrend (scenario a) \<and> isBearish (pdCandle this) then None
      else if insideBar (scenario a) then Some (Num (pdHigh this))
      else if confluence a \<ge> 3 then Some (Num (pdLow this))
      else None)"
    and "map_option sweepLevel (bearishSetup (determineForecastBias this a)) =
     (if fakeBreakoutHigh (scenario a) then Some (Num (pdHigh this))
      else if fakeBreakoutLow (scenario a) then None
      else if uptrend (scenario a) \<and> isBullish (pdCandle this) then None
      else if downtrend (scenario a) \<and> isBearish (pdCandle this) then Some (Num (pdHigh this))
      else if insideBar (scenario a) then Some (Num (pdLow this))
      else if confluence a \<ge> 3 then None
      else if confluence a \<le> - 3 then Some (Num (pdHigh this))
      else None)"
  using assms by (simp_all add: determineForecastBias_def Let_def)

lemmas sweep_simps = determine_sweeps [OF analyzed_setups]

lemma determine_emitted:
  assumes "bullishSetup a = None" "bearishSetup a = None"
  shows "(bullishSetup (determineForecastBias this a) \<noteq> None) =
     (if fakeBreakoutHigh (scenario a) then False
      else if fakeBreakoutLow (scenario a) then True
      else if uptrend (scenario a) \<and> isBullish (pdCandle this) then True
      else if downtrend (scenario a) \<and> isBearish (pdCandle this) then False
      else if insideBar (scenario a) then True
      else confluence a \<ge> 3)"
    and "(bearishSetup (determineForecastBias this a) \<noteq> None) =
     (if fakeBreakoutHigh (scenario a) then True
      else if fakeBreakoutLow (scenario a) then False
      else if uptrend (scenario a) \<and> isBullish (pdCandle this) then False
      else if downtrend (scenario a) \<and> isBearish (pdCandle this) then True
      else if insideBar (scenario a) then True
      else if confluence a \<ge> 3 then False
      else confluence a \<le> - 3)"
  using assms by (simp_all add: determineForecastBias_def Let_def)

lemmas emitted_simps = determine_emitted [OF analyzed_setups]

lemma determine_setup_forms:
  assumes none: "bullishSetup a = None" "bearishSetup a = None"
    and s: "bullishSetup (determineForecastBias this a) = Some s \<or>
            bearishSetup (determineForecastBias this a) = Some s"
  shows "setup_ok (pdHigh this) (pdLow this) s"
  using s none
  by (auto simp add: determineForecastBias_def Let_def rendered_toFixed mk_target_def
      setup_ok_def entry_zone_ok_def split: if_splits)

section \<open>The validator\<close>

lemma bar_ok_iff:
  "bar_ok h l opn c =
     (\<exists>hv lv ov cv. h = Some hv \<and> l = Some lv \<and> opn = Some ov \<and> c = Some cv \<and>
        valid_bar ov hv lv cv)"
  by (auto simp add: bar_ok_def valid_bar_def split: option.splits)

lemma valid_input_accepted:
  assumes "\<not> invalid_input fd"
  shows "\<exists>d. parsed fd = Some d \<and> handleFormSubmit fd = Inr (classify d)"
proof -
  from assms obtain d where d: "parsed fd = Some d" "valid_pair d"
    by (auto simp add: invalid_input_def split: option.splits)
  then have "validateInputs fd"
    by (auto simp add: validateInputs_def bar_ok_iff parsed_def valid_pair_def split: option.splits)
  with d show ?thesis by (simp add: handleFormSubmit_def classify_def)
qed

section \<open>Evaluating the double classifier\<close>

lemma binade_numeral:
  "binade (numeral k) x =
     (if 2 \<le> x then binade (pred_numeral k) (x / 2) + 1
      else if x < 1 then binade (pred_numeral k) (x * 2) - 1
      else 0)"
  by (simp add: numeral_eq_Suc)

lemmas fround_eval = fround_def rne_def pow2_def binade_numeral Let_def

text \<open>
  Some roundings: 0.1 and 1.4 are not doubles, 9 is, and \<open>2^53 + 1\<close> and \<open>2^53 + 3\<close> lie
  halfway between two doubles.
\<close>

lemma fround_examples:
  "fround 0 = 0"
  "fround 9 = 9"
  "fround 0.1 = 3602879701896397 / 2 ^ 55"
  "fround (- 0.1) = - 3602879701896397 / 2 ^ 55"
  "fround 1.4 = 6305039478318694 / 2 ^ 52"
  "fround 9007199254740993 = 9007199254740992"
  "fround 9007199254740995 = 9007199254740996"
  by (simp_all add: fround_eval)

lemma double_shape:
  "isDoji (analyzeCandleType_double opn cls hi lo) = (bodyPercent_double opn cls hi lo < 10)"
  "ctype (analyzeCandleType_double opn cls hi lo) =
     (if bodyPercent_double opn cls hi lo < 10 then ''DOJI''
      else if cls > opn then
        (if bodyPercent_double opn cls hi lo > 70 then ''STRONG BULLISH''
         else if bodyPercent_double opn cls hi lo > 50 then ''BULLISH'' else ''WEAK BULLISH'')
      else if cls < opn then
        (if bodyPercent_double opn cls hi lo > 70 then ''STRONG BEARISH''
         else if bodyPercent_double opn cls hi lo > 50 then ''BEARISH'' else ''WEAK BEARISH'')
      else ''NEUTRAL'')"
  "cstrength (analyzeCandleType_double opn cls hi lo) =
     (if bodyPercent_double opn cls hi lo < 10 then 0
      else if cls > opn then
        (if bodyPercent_double opn cls hi lo > 70 then 3
         else if bodyPercent_double opn cls hi lo > 50 then 2 else 1)
      else if cls < opn then
        (if bodyPercent_double opn cls hi lo > 70 then - 3
         else if bodyPercent_double opn cls hi lo > 50 then - 2 else - 1)
      else 0)"
  "isBullish (analyzeCandleType_double opn cls hi lo) = (cls > opn)"
  "isBearish (analyzeCandleType_double opn cls hi lo) = (cls < opn)"
  by (simp_all add: analyzeCandleType_double_def bodyPercent_double_def Let_def)

section \<open>Candle classifier\<close>

text \<open>
  C4, as amended. For every bar with \<open>high > low\<close> whose body percentage as the method
  computes it, \<open>(body / range) * 100\<close> in double arithmetic, is below 10, the classifier
  returns \<open>isDoji = true\<close>, the shape \<open>DOJI\<close> and strength 0, whatever the order of close
  and open.
\<close>

theorem computed_doji_overrides_direction:
  assumes "hi > lo" and "bodyPercent_double opn cls hi lo < 10"
  shows "isDoji (analyzeCandleType_double opn cls hi lo) \<and>
         ctype (analyzeCandleType_double opn cls hi lo) = ''DOJI'' \<and>
         cstrength (analyzeCandleType_double opn cls hi lo) = 0"
  using assms(2) by (simp add: double_shape)

text \<open>A bar with close above open and a computed body of 5 percent of the range.\<close>

theorem computed_doji_overrides_direction_witness:
  "(10::real) > 0 \<and> bodyPercent_double 5 5.5 10 0 < 10 \<and> (5.5::real) > 5 \<and>
   isDoji (analyzeCandleType_double 5 5.5 10 0) \<and>
   ctype (analyzeCandleType_double 5 5.5 10 0) = ''DOJI'' \<and>
   cstrength (analyzeCandleType_double 5 5.5 10 0) = 0"
proof -
  have b: "bodyPercent_double 5 5.5 10 0 < 10"
    by (simp add: bodyPercent_double_def fround_eval)
  show ?thesis
    using computed_doji_overrides_direction [of 0 10 5 "5.5"] b by simp
qed

text \<open>
  C4 as stated takes the percentage as \<open>100 * |close - open| / (high - low)\<close>. For open
  0.5, close 1.4, high 9.5 and low 0.5 that quotient, taken on the parsed doubles, is below
  10, while the method computes exactly 10 and classifies the bar as \<open>WEAK BULLISH\<close>.
\<close>

theorem doji_threshold_counterexample:
  "valid_bar 0.5 9.5 0.5 (fround 1.4) \<and>
   100 * \<bar>fround 1.4 - 0.5\<bar> / (9.5 - 0.5) < 10 \<and>
   fround 1.4 > 0.5 \<and>
   bodyPercent_double 0.5 (fround 1.4) 9.5 0.5 = 10 \<and>
   \<not> isDoji (analyzeCandleType_double 0.5 (fround 1.4) 9.5 0.5) \<and>
   ctype (analyzeCandleType_double 0.5 (fround 1.4) 9.5 0.5) = ''WEAK BULLISH'' \<and>
   cstrength (analyzeCandleType_double 0.5 (fround 1.4) 9.5 0.5) = 1"
proof -
  have p: "fround 1.4 = 6305039478318694 / 2 ^ 52"
    by (simp add: fround_eval)
  have b: "bodyPercent_double 0.5 (6305039478318694 / 2 ^ 52) 9.5 0.5 = 10"
    by (simp add: bodyPercent_double_def fround_eval)
  show ?thesis
    unfolding p using b by (simp add: double_shape valid_bar_def)
qed

text \<open>
  C8. For every bar with \<open>high > low\<close> the shape of the classified candle is never
  \<open>NEUTRAL\<close>: with close equal to open the body is 0 and the doji branch is taken.
\<close>

theorem shape_never_neutral:
  assumes "hi > lo"
  shows "ctype (analyzeCandleType opn cls hi lo) \<noteq> ''NEUTRAL''"
proof (cases "cls = opn")
  case True
  then show ?thesis by (simp add: analyzeCandleType_def Let_def)
next
  case False
  then have "cls > opn \<or> cls < opn" by auto
  then show ?thesis by (auto simp add: analyzeCandleType_def Let_def)
qed

theorem shape_never_neutral_witness:
  "(10::real) > 0 \<and> ctype (analyzeCandleType 5 5 10 0) \<noteq> ''NEUTRAL''"
  using shape_never_neutral [of 0 10 5 5] by simp

section \<open>Structure analyzer\<close>

text \<open>
  C7. For every valid bar pair whose D-1 high is above the D-2 high while the D-1 close is
  not, the high-breakout check sets \<open>fakeBreakoutHigh\<close> and adds exactly 1 to the
  confluence, whatever the state before it; mirrored, the low-breakout check sets
  \<open>fakeBreakoutLow\<close> and subtracts exactly 1.
\<close>

theorem fake_breakout_delta:
  assumes "valid_pair d"
  shows "(in_pdHigh d > in_dbpdHigh d \<and> \<not> in_pdClose d > in_dbpdHigh d \<longrightarrow>
            fakeBreakoutHigh (scenario (checkBreakoutHigh (BiasCalculator d) a)) \<and>
            confluence (checkBreakoutHigh (BiasCalculator d) a) = confluence a + 1) \<and>
         (in_pdLow d < in_dbpdLow d \<and> \<not> in_pdClose d < in_dbpdLow d \<longrightarrow>
            fakeBreakoutLow (scenario (checkBreakoutLow (BiasCalculator d) a)) \<and>
            confluence (checkBreakoutLow (BiasCalculator d) a) = confluence a - 1)"
  by (simp add: checkBreakoutHigh_def checkBreakoutLow_def Let_def calc_sel)

text \<open>An outside bar that closes inside the D-2 range sweeps both sides.\<close>

theorem fake_breakout_delta_witness:
  "valid_pair (mk_data 6 10 5 9 6 11 4 8) \<and>
   (11::real) > 10 \<and> \<not> (8::real) > 10 \<and> (4::real) < 5 \<and> \<not> (8::real) < 5 \<and>
   confluence (checkBreakoutHigh (BiasCalculator (mk_data 6 10 5 9 6 11 4 8))
                 (initial_analysis (BiasCalculator (mk_data 6 10 5 9 6 11 4 8)))) = 1 \<and>
   confluence (checkBreakoutLow (BiasCalculator (mk_data 6 10 5 9 6 11 4 8))
                 (initial_analysis (BiasCalculator (mk_data 6 10 5 9 6 11 4 8)))) = - 1"
proof -
  have v: "valid_pair (mk_data 6 10 5 9 6 11 4 8)"
    by (simp add: valid_pair_def valid_bar_def)
  show ?thesis
    using fake_breakout_delta [OF v, of "initial_analysis (BiasCalculator (mk_data 6 10 5 9 6 11 4 8))"] v
    by (simp add: initial_analysis_def)
qed

section \<open>Resolver\<close>

text \<open>
  C1, as amended. For every valid bar pair with the uptrend flag set, a bullish D-1 candle
  and a confluence of at least 3, the bias is never \<open>BULLISH\<close>: it is
  \<open>BULLISH CONTINUATION\<close> when the D-1 close is above the D-2 high, and
  \<open>BEARISH REVERSAL\<close> otherwise, because the fake-breakout rule stands before rule 3 in
  the chain.
\<close>

theorem rule3_priority:
  assumes "valid_pair d"
    and "uptrend (scenario (classify d))"
    and "isBullish (pdCandle (BiasCalculator d))"
    and "confluence (classify d) \<ge> 3"
  shows "bias (classify d) \<noteq> ''BULLISH'' \<and>
         bias (classify d) =
           (if in_pdClose d > in_dbpdHigh d then ''BULLISH CONTINUATION'' else ''BEARISH REVERSAL'')"
  using assms(2,3)
  by (simp add: classify_def calculateBias_eq generate_sel determine_keeps determine_bias
      analyzed_flag_sel calc_sel)

theorem rule3_priority_witness:
  "valid_pair (mk_data 6 10 5 9 7 12 6 11) \<and>
   uptrend (scenario (classify (mk_data 6 10 5 9 7 12 6 11))) \<and>
   isBullish (pdCandle (BiasCalculator (mk_data 6 10 5 9 7 12 6 11))) \<and>
   confluence (classify (mk_data 6 10 5 9 7 12 6 11)) \<ge> 3 \<and>
   bias (classify (mk_data 6 10 5 9 7 12 6 11)) = ''BULLISH CONTINUATION''"
proof -
  have h: "valid_pair (mk_data 6 10 5 9 7 12 6 11)"
    "uptrend (scenario (classify (mk_data 6 10 5 9 7 12 6 11)))"
    "isBullish (pdCandle (BiasCalculator (mk_data 6 10 5 9 7 12 6 11)))"
    "confluence (classify (mk_data 6 10 5 9 7 12 6 11)) \<ge> 3"
    by (simp_all add: run_simps)
  show ?thesis using rule3_priority [OF h] h by simp
qed

text \<open>
  C1 as stated fails: D-2 = (open 6, high 10, low 5, close 9) and D-1 = (open 7, high 11,
  low 6, close 9) is an uptrend with a bullish D-1 candle and confluence 5, and the bias is
  \<open>BEARISH REVERSAL\<close>.
\<close>

theorem rule3_priority_counterexample:
  "valid_pair (mk_data 6 10 5 9 7 11 6 9) \<and>
   uptrend (scenario (classify (mk_data 6 10 5 9 7 11 6 9))) \<and>
   isBullish (pdCandle (BiasCalculator (mk_data 6 10 5 9 7 11 6 9))) \<and>
   confluence (classify (mk_data 6 10 5 9 7 11 6 9)) \<ge> 3 \<and>
   bias (classify (mk_data 6 10 5 9 7 11 6 9)) = ''BEARISH REVERSAL'' \<and>
   bias (classify (mk_data 6 10 5 9 7 11 6 9)) \<noteq> ''BULLISH CONTINUATION''"
  by (simp add: run_simps)

text \<open>
  C2, as amended. For D-2 = (open 1.10, high 1.12, low 1.09, close 1.115) and
  D-1 = (open 1.115, high 1.118, low 1.095, close 1.097) the D-1 high is not above the D-2
  high: the pair is an inside bar with a bearish D-1 candle, and the result is
  \<open>BEARISH BREAKOUT\<close> with strength 70, bearish sweep level 1.095 and bullish sweep level
  1.118.
\<close>

theorem documented_scenario_result:
  "\<not> in_pdHigh documented_scenario > in_dbpdHigh documented_scenario \<and>
   bias (classify documented_scenario) = ''BEARISH BREAKOUT'' \<and>
   strength (classify documented_scenario) = 70 \<and>
   map_option sweepLevel (bearishSetup (classify documented_scenario)) = Some (Num 1.095) \<and>
   map_option sweepLevel (bullishSetup (classify documented_scenario)) = Some (Num 1.118)"
  by (simp add: documented_scenario_def run_simps sweep_simps)

text \<open>C2 as stated fails in each of its three parts.\<close>

theorem documented_scenario_counterexample:
  "bias (classify documented_scenario) \<noteq> ''BEARISH REVERSAL'' \<and>
   strength (classify documented_scenario) \<noteq> 85 \<and>
   map_option sweepLevel (bearishSetup (classify documented_scenario)) \<noteq> Some (Num 1.118)"
  by (simp add: documented_scenario_def run_simps sweep_simps)

text \<open>
  C3, as amended. For every valid bar pair the bias is one of the ten labels of
  \<open>bias_labels\<close>, and the strength lies in \<open>[0, 100]\<close>.
\<close>

theorem bias_label_and_strength:
  assumes "valid_pair d"
  shows "bias (classify d) \<in> set bias_labels \<and>
         0 \<le> strength (classify d) \<and> strength (classify d) \<le> 100"
proof -
  let ?this = "BiasCalculator d"
  have c: "\<bar>confluence (analyzed ?this)\<bar> \<le> 19" by (rule analyzed_conf_bound)
  have b: "bias (classify d) \<in> set bias_labels"
    by (simp add: classify_def calculateBias_eq generate_sel determine_bias bias_labels_def)
  have s: "0 \<le> strength (classify d) \<and> strength (classify d) \<le> 100"
    using c by (auto simp add: classify_def calculateBias_eq generate_sel determine_strength)
  from b s show ?thesis by simp
qed

theorem bias_label_and_strength_witness:
  "valid_pair documented_scenario \<and> bias (classify documented_scenario) \<in> set bias_labels \<and>
   0 \<le> strength (classify documented_scenario) \<and> strength (classify documented_scenario) \<le> 100"
proof -
  have v: "valid_pair documented_scenario"
    by (simp add: documented_scenario_def valid_pair_def valid_bar_def)
  show ?thesis using bias_label_and_strength [OF v] v by simp
qed

text \<open>
  C3 as stated speaks of nine labels: the ten valid inputs of \<open>label_samples\<close> are given
  ten different labels.
\<close>

theorem nine_labels_counterexample:
  "list_all valid_pair label_samples \<and> card (set (map bias_of label_samples)) = 10"
proof -
  have v: "list_all valid_pair label_samples"
    by (simp add: label_samples_def valid_pair_def valid_bar_def)
  have m: "map bias_of label_samples = bias_labels"
    by (simp add: label_samples_def bias_labels_def bias_of_def run_simps)
  have "distinct bias_labels" by (simp add: bias_labels_def)
  then have "card (set bias_labels) = 10" by (simp add: distinct_card bias_labels_def)
  with v m show ?thesis by simp
qed

text \<open>
  C5. For every valid bar pair the \<open>insideBar\<close> flag is set exactly when the D-1 high is at
  most the D-2 high and the D-1 low at least the D-2 low; when it is set, both setups are
  non-empty, and when it is not (the pair is resolved by another rule), at most one is.
\<close>

theorem setups_by_rule:
  assumes "valid_pair d"
  shows "insideBar (scenario (classify d)) =
           (in_pdHigh d \<le> in_dbpdHigh d \<and> in_pdLow d \<ge> in_dbpdLow d) \<and>
         (insideBar (scenario (classify d)) \<longrightarrow>
            bullishSetup (classify d) \<noteq> None \<and> bearishSetup (classify d) \<noteq> None) \<and>
         (\<not> insideBar (scenario (classify d)) \<longrightarrow>
            bullishSetup (classify d) = None \<or> bearishSetup (classify d) = None)"
proof -
  let ?this = "BiasCalculator d"
  have bu: "(bullishSetup (classify d) \<noteq> None) =
      (bullishSetup (determineForecastBias ?this (analyzed ?this)) \<noteq> None)"
    and be: "(bearishSetup (classify d) \<noteq> None) =
      (bearishSetup (determineForecastBias ?this (analyzed ?this)) \<noteq> None)"
    and sc: "scenario (classify d) = scenario (analyzed ?this)"
    by (simp_all add: classify_def calculateBias_eq generate_sel determine_keeps)
  have 1: "insideBar (scenario (classify d)) =
           (in_pdHigh d \<le> in_dbpdHigh d \<and> in_pdLow d \<ge> in_dbpdLow d)"
    by (simp add: sc analyzed_flag_sel calc_sel)
  have 2: "insideBar (scenario (classify d)) \<longrightarrow>
            bullishSetup (classify d) \<noteq> None \<and> bearishSetup (classify d) \<noteq> None"
    unfolding bu be emitted_simps sc by (auto simp add: analyzed_flag_sel)
  have 3: "\<not> insideBar (scenario (classify d)) \<longrightarrow>
            \<not> (bullishSetup (classify d) \<noteq> None \<and> bearishSetup (classify d) \<noteq> None)"
    unfolding bu be emitted_simps sc by (auto simp add: analyzed_flag_sel)
  from 1 2 3 show ?thesis by blast
qed

theorem setups_by_rule_witness:
  "valid_pair documented_scenario \<and> insideBar (scenario (classify documented_scenario)) \<and>
   bullishSetup (classify documented_scenario) \<noteq> None \<and>
   bearishSetup (classify documented_scenario) \<noteq> None \<and>
   valid_pair swept_high \<and> \<not> insideBar (scenario (classify swept_high)) \<and>
   (bullishSetup (classify swept_high) = None \<or> bearishSetup (classify swept_high) = None)"
proof -
  have v: "valid_pair documented_scenario" "valid_pair swept_high"
    by (simp_all add: documented_scenario_def swept_high_def valid_pair_def valid_bar_def)
  have i: "insideBar (scenario (classify documented_scenario))"
    "\<not> insideBar (scenario (classify swept_high))"
    by (simp_all add: documented_scenario_def swept_high_def run_simps)
  show ?thesis
    using setups_by_rule [OF v(1)] setups_by_rule [OF v(2)] v i by simp
qed

text \<open>
  C10. In every classified candle \<open>isBullish\<close> is \<open>close > open\<close> and \<open>isBearish\<close> is
  \<open>close < open\<close>, doji or not. Hence, for every valid inside-bar pair, the bias is
  \<open>NEUTRAL - WAIT\<close> exactly when the D-1 close equals the D-1 open, and a doji D-1 bar
  with close different from open yields \<open>BULLISH BREAKOUT\<close> or \<open>BEARISH BREAKOUT\<close> with
  strength 70.
\<close>

theorem inside_bar_verdict:
  "isBullish (analyzeCandleType opn cls hi lo) = (cls > opn) \<and>
   isBearish (analyzeCandleType opn cls hi lo) = (cls < opn) \<and>
   (valid_pair d \<and> in_pdHigh d \<le> in_dbpdHigh d \<and> in_pdLow d \<ge> in_dbpdLow d \<longrightarrow>
      (bias (classify d) = ''NEUTRAL - WAIT'') = (in_pdClose d = in_pdOpen d) \<and>
      (isDoji (pdCandle (BiasCalculator d)) \<and> in_pdClose d \<noteq> in_pdOpen d \<longrightarrow>
         (bias (classify d) = ''BULLISH BREAKOUT'' \<or> bias (classify d) = ''BEARISH BREAKOUT'') \<and>
         strength (classify d) = 70))"
  by (auto simp add: candle_direction classify_def calculateBias_eq generate_sel determine_bias
      determine_strength analyzed_flag_sel calc_sel)

theorem inside_bar_verdict_witness:
  "valid_pair doji_inside \<and> in_pdHigh doji_inside \<le> in_dbpdHigh doji_inside \<and>
   in_pdLow doji_inside \<ge> in_dbpdLow doji_inside \<and>
   isDoji (pdCandle (BiasCalculator doji_inside)) \<and>
   in_pdClose doji_inside \<noteq> in_pdOpen doji_inside \<and>
   isBullish (pdCandle (BiasCalculator doji_inside)) \<and>
   bias (classify doji_inside) = ''BULLISH BREAKOUT'' \<and> strength (classify doji_inside) = 70"
proof -
  have h: "valid_pair doji_inside" "in_pdHigh doji_inside \<le> in_dbpdHigh doji_inside"
    "in_pdLow doji_inside \<ge> in_dbpdLow doji_inside"
    "isDoji (pdCandle (BiasCalculator doji_inside))"
    "in_pdClose doji_inside \<noteq> in_pdOpen doji_inside"
    "isBullish (pdCandle (BiasCalculator doji_inside))"
    by (simp_all add: doji_inside_def run_simps)
  have b: "bias (classify doji_inside) \<noteq> ''BEARISH BREAKOUT''"
    by (simp add: doji_inside_def run_simps)
  show ?thesis
    using inside_bar_verdict [of 7 "7.1" 9 6 doji_inside] h b by simp
qed

text \<open>
  C9, as amended. For every valid bar pair and every emitted setup, the invalidation, every
  target level and the computed bound of the entry zone are results of \<open>toFixed(5)\<close>;
  the sweep level is the D-1 high or low as a plain number, not rendered, and the other
  bound of the entry zone is that number under the default conversion. The body percentage
  of each candle is a result of \<open>toFixed(1)\<close>.
\<close>

theorem setup_renderings:
  assumes "valid_pair d"
    and "bullishSetup (classify d) = Some s \<or> bearishSetup (classify d) = Some s"
  shows "setup_ok (in_pdHigh d) (in_pdLow d) s \<and> \<not> rendered 5 (sweepLevel s) \<and>
         rendered 1 (bodyPercent (dbpdCandle (BiasCalculator d))) \<and>
         rendered 1 (bodyPercent (pdCandle (BiasCalculator d)))"
proof -
  let ?this = "BiasCalculator d"
  have "bullishSetup (determineForecastBias ?this (analyzed ?this)) = Some s \<or>
        bearishSetup (determineForecastBias ?this (analyzed ?this)) = Some s"
    using assms(2) by (simp add: classify_def calculateBias_eq generate_sel)
  from determine_setup_forms [OF analyzed_setups this]
  have "setup_ok (in_pdHigh d) (in_pdLow d) s \<and> \<not> rendered 5 (sweepLevel s)"
    by (auto simp add: calc_sel setup_ok_def)
  then show ?thesis using candle_body_percent by (simp add: calc_sel)
qed

theorem setup_renderings_witness:
  "valid_pair swept_high \<and> bearishSetup (classify swept_high) \<noteq> None \<and>
   setup_ok 1.125 1.095 (the (bearishSetup (classify swept_high))) \<and>
   sweepLevel (the (bearishSetup (classify swept_high))) = Num 1.125"
proof -
  have v: "valid_pair swept_high"
    by (simp add: swept_high_def valid_pair_def valid_bar_def)
  have l: "map_option sweepLevel (bearishSetup (classify swept_high)) = Some (Num 1.125)"
    by (simp add: swept_high_def run_simps sweep_simps)
  then have e: "bearishSetup (classify swept_high) \<noteq> None" by auto
  then have s: "bearishSetup (classify swept_high) = Some (the (bearishSetup (classify swept_high)))"
    by simp
  have l': "sweepLevel (the (bearishSetup (classify swept_high))) = Num 1.125"
    using l e by (cases "bearishSetup (classify swept_high)") auto
  have p: "in_pdHigh swept_high = 1.125" "in_pdLow swept_high = 1.095"
    by (simp_all add: swept_high_def)
  show ?thesis
    using setup_renderings [OF v disjI2 [OF s]] v e l' unfolding p by simp
qed

text \<open>
  C9 as stated fails at the sweep level: for a D-1 bar that sweeps the D-2 high and closes
  inside, the bearish setup holds the number 1.125, whose \<open>toFixed(5)\<close> rendering would be
  the string 1.12500.
\<close>

theorem setup_renderings_counterexample:
  "valid_pair swept_high \<and>
   bias (classify swept_high) = ''BEARISH REVERSAL'' \<and>
   map_option sweepLevel (bearishSetup (classify swept_high)) = Some (Num 1.125) \<and>
   toFixed 5 1.125 = Str ''1.12500'' \<and>
   \<not> rendered 5 (Num 1.125)"
proof -
  have n: "nat \<lfloor>\<bar>1.125::real\<bar> * 10 ^ 5 + 1 / 2\<rfloor> = 112500" by simp
  have dg: "digits_of 112500 = ''112500''" by (simp add: digits_of.simps digit_char_def)
  have "toFixed 5 1.125 = Str ''1.12500''"
    unfolding toFixed_def Let_def n dg by simp
  then show ?thesis
    by (simp add: swept_high_def run_simps sweep_simps)
qed

section \<open>Rejected input\<close>

text \<open>
  C6, as amended. For every form with a NaN field, or a bar with \<open>high <= low\<close>, or an
  open or close outside \<open>[low, high]\<close>, \<open>validateInputs\<close> returns false and the form handler
  returns before the calculator is built, so no result is produced for the form. Nothing is
  raised, and the calculator itself has no guard.
\<close>

theorem invalid_form_rejected:
  assumes "invalid_input fd"
  shows "\<not> validateInputs fd \<and> handleFormSubmit fd = Inl AlertAndReturn \<and>
         (\<forall>a. handleFormSubmit fd \<noteq> Inr a)"
proof -
  have "\<not> validateInputs fd"
  proof
    assume "validateInputs fd"
    then have "bar_ok (f_dbpdHigh fd) (f_dbpdLow fd) (f_dbpdOpen fd) (f_dbpdClose fd)"
      and "bar_ok (f_pdHigh fd) (f_pdLow fd) (f_pdOpen fd) (f_pdClose fd)"
      by (simp_all add: validateInputs_def split: if_splits)
    then obtain d where "parsed fd = Some d" "valid_pair d"
      by (auto simp add: bar_ok_iff parsed_def valid_pair_def)
    with assms show False by (simp add: invalid_input_def)
  qed
  then show ?thesis by (simp add: handleFormSubmit_def)
qed

theorem invalid_form_rejected_witness:
  "invalid_input flat_form \<and> \<not> validateInputs flat_form \<and>
   handleFormSubmit flat_form = Inl AlertAndReturn"
proof -
  have i: "invalid_input flat_form"
    by (simp add: invalid_input_def flat_form_def parsed_def valid_pair_def valid_bar_def)
  show ?thesis using invalid_form_rejected [OF i] i by simp
qed

text \<open>
  C6 as stated fails for the calculator: built directly on a pair whose D-1 high is below
  its low, it raises nothing and returns a complete result, the inside-bar verdict with
  both setups.
\<close>

theorem calculator_unguarded_counterexample:
  "in_pdHigh inverted_bar \<le> in_pdLow inverted_bar \<and>
   \<not> valid_pair inverted_bar \<and>
   bias (classify inverted_bar) = ''BULLISH BREAKOUT'' \<and>
   strength (classify inverted_bar) = 70 \<and>
   map_option sweepLevel (bullishSetup (classify inverted_bar)) = Some (Num 1.10) \<and>
   map_option sweepLevel (bearishSetup (classify inverted_bar)) = Some (Num 1.11)"
  by (simp add: inverted_bar_def run_simps sweep_simps)

end
